theory Spec2Isabelle
  imports Complex_Main "HOL-Library.Log_Nat"
begin

section \<open>Benchmark script \<open>test_optimizations.py\<close>: data model\<close>

text \<open>
  The script drives OpenCV's ArUco detector under three presets. Two conventions hold
  for the whole development.

  \<^item> Every function of the vision library (\<open>cv2\<close>) is external. It is a field of the
    record \<open>cv2\<close> below, so that each theorem holds for every behaviour of the library.
    Library functions are deterministic functions of their arguments.
  \<^item> Python's \<open>int\<close> is \<open>int\<close>. A Python \<open>float\<close> is an IEEE 754 double; a finite
    double is the real number it denotes, and the arithmetic of lines 119, 127, 190
    and 191 rounds as the hardware does (section "Python floats" below). The constants
    that \<open>setup_detector\<close> assigns are kept as the decimal numbers the source writes.

  Exceptions are values: a function that can raise returns \<open>error + 'a\<close>.
\<close>

datatype error = KeyError string | IndexError | ZeroDivisionError | UnboundLocalError string

text \<open>One entry of the module-level dictionary \<open>configs\<close> (lines 11-33).\<close>

record config =
  use_clahe :: bool
  use_bilateral :: bool
  use_multi_threshold :: bool
  adaptive_thresh_constant :: int
  corner_refinement_max_iterations :: int

definition configs_items :: "(string \<times> config) list" where
  "configs_items =
    [(''original'',
        \<lparr>use_clahe = False, use_bilateral = False, use_multi_threshold = False,
         adaptive_thresh_constant = 7, corner_refinement_max_iterations = 30\<rparr>),
     (''optimized'',
        \<lparr>use_clahe = True, use_bilateral = False, use_multi_threshold = True,
         adaptive_thresh_constant = 5, corner_refinement_max_iterations = 60\<rparr>),
     (''maximum'',
        \<lparr>use_clahe = True, use_bilateral = True, use_multi_threshold = True,
         adaptive_thresh_constant = 5, corner_refinement_max_iterations = 80\<rparr>)]"

text \<open>\<open>configs[name]\<close>: the dictionary in insertion order, looked up by key.\<close>

definition configs :: "string \<rightharpoonup> config" where
  "configs = map_of configs_items"

text \<open>
  The fields of the library's detector-parameter object that \<open>setup_detector\<close> assigns.
  The object's remaining fields keep whatever \<open>DetectorParameters_create\<close> gave them and
  are not modelled.
\<close>

datatype corner_refine_method =
  CORNER_REFINE_NONE | CORNER_REFINE_SUBPIX | CORNER_REFINE_CONTOUR | CORNER_REFINE_APRILTAG

datatype dictionary_name = DICT_7X7_50

datatype color_code = COLOR_BGR2GRAY

datatype threshold_flag = THRESH_BINARY | THRESH_OTSU

record parameters =
  adaptiveThreshConstant :: real
  cornerRefinementMaxIterations :: int
  cornerRefinementMethod :: corner_refine_method
  minMarkerPerimeterRate :: real
  maxMarkerPerimeterRate :: real
  polygonalApproxAccuracyRate :: real
  minCornerDistanceRate :: real
  cornerRefinementWinSize :: int
  cornerRefinementMinAccuracy :: real
  errorCorrectionRate :: real
  detectInvertedMarker :: bool

text \<open>
  The library, as the script uses it. \<open>'img\<close> is an image (a numpy array), \<open>'c\<close> one
  marker's corner-set, \<open>'d\<close> a marker dictionary.

  \<^item> \<open>clahe_apply clip tiles img\<close> is \<open>cv2.createCLAHE(clipLimit, tileGridSize).apply(img)\<close>.
  \<^item> \<open>threshold img thresh maxval flags\<close> is the image \<open>cv2.threshold\<close> returns (the second
    component of its result); \<open>flags\<close> lists the summands of the type argument.
  \<^item> \<open>detectMarkers img d ps\<close> is the triple (corners, ids, rejected) of
    \<open>cv2.aruco.detectMarkers\<close>; \<open>ids\<close> is \<open>None\<close> or the flattened identifier column.
\<close>

record ('img, 'c, 'd) cv2 =
  getPredefinedDictionary :: "dictionary_name \<Rightarrow> 'd"
  DetectorParameters_create :: parameters
  cvtColor :: "'img \<Rightarrow> color_code \<Rightarrow> 'img"
  clahe_apply :: "real \<Rightarrow> nat \<times> nat \<Rightarrow> 'img \<Rightarrow> 'img"
  bilateralFilter :: "'img \<Rightarrow> int \<Rightarrow> real \<Rightarrow> real \<Rightarrow> 'img"
  threshold :: "'img \<Rightarrow> real \<Rightarrow> real \<Rightarrow> threshold_flag list \<Rightarrow> 'img"
  detectMarkers :: "'img \<Rightarrow> 'd \<Rightarrow> parameters \<Rightarrow> 'c list \<times> int list option \<times> 'c list"

section \<open>Detector setup\<close>

text \<open>\<open>setup_detector\<close> (lines 35-55). An unknown preset name raises \<open>KeyError\<close>.\<close>

definition setup_detector ::
  "('img, 'c, 'd) cv2 \<Rightarrow> string \<Rightarrow> error + ('d \<times> parameters \<times> config)" where
  "setup_detector lib config_name =
    (case configs config_name of
       None \<Rightarrow> Inl (KeyError config_name)
     | Some cfg \<Rightarrow>
         let dictionary = getPredefinedDictionary lib DICT_7X7_50;
             ps = DetectorParameters_create lib;
             ps = ps\<lparr>adaptiveThreshConstant := of_int (adaptive_thresh_constant cfg)\<rparr>;
             ps = ps\<lparr>cornerRefinementMaxIterations := corner_refinement_max_iterations cfg\<rparr>;
             ps = ps\<lparr>cornerRefinementMethod := CORNER_REFINE_SUBPIX\<rparr>;
             ps = ps\<lparr>minMarkerPerimeterRate := 0.01\<rparr>;
             ps = ps\<lparr>maxMarkerPerimeterRate := 4.0\<rparr>;
             ps = ps\<lparr>polygonalApproxAccuracyRate := 0.03\<rparr>;
             ps = ps\<lparr>minCornerDistanceRate := 0.03\<rparr>;
             ps = ps\<lparr>cornerRefinementWinSize := 5\<rparr>;
             ps = ps\<lparr>cornerRefinementMinAccuracy := 0.01\<rparr>;
             ps = ps\<lparr>errorCorrectionRate := 0.6\<rparr>;
             ps = ps\<lparr>detectInvertedMarker := True\<rparr>
         in Inr (dictionary, ps, cfg))"

section \<open>Preprocessing\<close>

text \<open>
  \<open>preprocess_image\<close> (lines 57-68), on image contents: \<open>gray.copy()\<close> has the contents of
  \<open>gray\<close>; CLAHE and the bilateral filter are applied to it in this order, each if its
  flag is set.
\<close>

definition preprocess_image :: "('img, 'c, 'd) cv2 \<Rightarrow> 'img \<Rightarrow> config \<Rightarrow> 'img" where
  "preprocess_image lib gray cfg =
    (let processed = gray;
         processed = (if use_clahe cfg then clahe_apply lib 2.0 (8, 8) processed
                      else processed);
         processed = (if use_bilateral cfg then bilateralFilter lib processed 5 50 50
                      else processed)
     in processed)"

text \<open>
  The same function on a store of array objects, for the question of aliasing. An array
  object is an index into the store and the list entry there is its contents. A new
  object takes the next free index. \<open>gray.copy()\<close>, \<open>clahe.apply\<close> and
  \<open>cv2.bilateralFilter\<close> (called without a destination argument) each return a new
  array object; none of them writes to its argument.
\<close>

type_synonym 'img store = "'img list"

definition new_array :: "'img store \<Rightarrow> 'img \<Rightarrow> nat \<times> 'img store" where
  "new_array h v = (length h, h @ [v])"

definition preprocess_image_st ::
  "('img, 'c, 'd) cv2 \<Rightarrow> 'img store \<Rightarrow> nat \<Rightarrow> config \<Rightarrow> nat \<times> 'img store" where
  "preprocess_image_st lib h gray cfg =
    (let (processed, h) = new_array h (h ! gray);
         (processed, h) =
           (if use_clahe cfg then new_array h (clahe_apply lib 2.0 (8, 8) (h ! processed))
            else (processed, h));
         (processed, h) =
           (if use_bilateral cfg then new_array h (bilateralFilter lib (h ! processed) 5 50 50)
            else (processed, h))
     in (processed, h))"

section \<open>Detection and the merge of the two passes\<close>

text \<open>
  The loop of lines 82-86, repeated at lines 92-96: \<open>enumerate\<close> over the flattened
  identifiers, \<open>i\<close> being the running index. The state is
  \<open>(all_corners, all_ids, seen_ids)\<close>. \<open>corners[i]\<close> raises \<open>IndexError\<close> when the
  corner tuple is shorter than the identifier array.
\<close>

fun merge_pass ::
  "'c list \<Rightarrow> nat \<Rightarrow> int list \<Rightarrow> 'c list \<times> int list \<times> int set \<Rightarrow>
   error + ('c list \<times> int list \<times> int set)" where
  "merge_pass corners i [] st = Inr st"
| "merge_pass corners i (marker_id # rest) (all_corners, all_ids, seen_ids) =
    (if marker_id \<notin> seen_ids then
       (if i < length corners then
          merge_pass corners (Suc i) rest
            (all_corners @ [corners ! i], all_ids @ [marker_id], insert marker_id seen_ids)
        else Inl IndexError)
     else merge_pass corners (Suc i) rest (all_corners, all_ids, seen_ids))"

text \<open>\<open>if ids is not None: for ...\<close>\<close>

definition merge_result ::
  "'c list \<times> int list option \<times> 'c list \<Rightarrow> 'c list \<times> int list \<times> int set \<Rightarrow>
   error + ('c list \<times> int list \<times> int set)" where
  "merge_result res st =
    (case res of (corners, ids, _) \<Rightarrow>
       (case ids of None \<Rightarrow> Inr st | Some l \<Rightarrow> merge_pass corners 0 l st))"

text \<open>
  \<open>detect_markers\<close> (lines 70-103). The result is the pair (corners, ids); \<open>ids\<close> is
  \<open>None\<close> or the identifier column.
\<close>

definition detect_markers ::
  "('img, 'c, 'd) cv2 \<Rightarrow> 'img \<Rightarrow> 'd \<Rightarrow> parameters \<Rightarrow> config \<Rightarrow>
   error + ('c list \<times> int list option)" where
  "detect_markers lib gray dictionary ps cfg =
    (let processed = preprocess_image lib gray cfg in
     if use_multi_threshold cfg then
       (case merge_result (detectMarkers lib processed dictionary ps) ([], [], {}) of
          Inl e \<Rightarrow> Inl e
        | Inr st \<Rightarrow>
            let thresh_otsu = threshold lib processed 0 255 [THRESH_BINARY, THRESH_OTSU] in
            (case merge_result (detectMarkers lib thresh_otsu dictionary ps) st of
               Inl e \<Rightarrow> Inl e
             | Inr (all_corners, all_ids, seen_ids) \<Rightarrow>
                 if length all_ids > 0 then Inr (all_corners, Some all_ids)
                 else Inr ([], None)))
     else
       (case detectMarkers lib processed dictionary ps of
          (corners, ids, _) \<Rightarrow> Inr (corners, ids)))"

text \<open>
  Reading a detection result: the corner-set paired with an identifier, the first one
  when the identifier occurs more than once.
\<close>

definition marker_corners :: "'c list \<Rightarrow> int list option \<Rightarrow> int \<rightharpoonup> 'c" where
  "marker_corners corners ids =
    (case ids of None \<Rightarrow> Map.empty | Some l \<Rightarrow> map_of (zip l corners))"

text \<open>A library result is well formed when every identifier has its corner-set.\<close>

definition well_formed :: "'c list \<times> int list option \<times> 'c list \<Rightarrow> bool" where
  "well_formed res =
    (case res of (corners, ids, _) \<Rightarrow>
       (case ids of None \<Rightarrow> True | Some l \<Rightarrow> length l \<le> length corners))"

section \<open>Python floats\<close>

text \<open>
  A finite double is a real of the form \<open>m * 2^e\<close> with \<open>\<bar>m\<bar> < 2^53\<close> and
  \<open>- 1074 \<le> e\<close>. Each arithmetic operation on doubles returns the exact result rounded
  to the nearest double, ties to the even significand, with gradual underflow below
  \<open>2^-1022\<close>. Results of magnitude \<open>2^1024\<close> and more, which the hardware turns into
  infinities, are outside the model: \<open>double_of\<close> rounds them as if the exponent range
  had no upper end, and every property that depends on magnitudes states its range.

  \<open>exponent x\<close> is the \<open>e\<close> with \<open>2^e \<le> \<bar>x\<bar> < 2^(e+1)\<close>, for \<open>x \<noteq> 0\<close>.
\<close>

definition round_half_even :: "real \<Rightarrow> int" where
  "round_half_even y =
    (let f = \<lfloor>y\<rfloor>; r = y - of_int f
     in if r < 1 / 2 then f else if 1 / 2 < r then f + 1 else if even f then f else f + 1)"

definition exponent :: "real \<Rightarrow> int" where
  "exponent x =
    (let a = \<bar>x\<bar>
     in if 1 \<le> a then bitlen \<lfloor>a\<rfloor> - 1
        else (let k = bitlen \<lfloor>1 / a\<rfloor> - 1
              in if a = 2 powi (- k) then - k else - k - 1))"

definition double_of :: "real \<Rightarrow> real" where
  "double_of x =
    (if x = 0 then 0
     else let e = max (exponent x) (- 1022) - 52
          in of_int (round_half_even (x / 2 powi e)) * 2 powi e)"

text \<open>\<open>a - b\<close> and \<open>a * b\<close> on floats.\<close>

definition py_sub :: "real \<Rightarrow> real \<Rightarrow> real" where
  "py_sub a b = double_of (a - b)"

definition py_mul :: "real \<Rightarrow> real \<Rightarrow> real" where
  "py_mul a b = double_of (a * b)"

text \<open>\<open>a / b\<close> on floats: Python raises \<open>ZeroDivisionError\<close> on a zero divisor.\<close>

definition py_truediv :: "real \<Rightarrow> real \<Rightarrow> error + real" where
  "py_truediv a b = (if b = 0 then Inl ZeroDivisionError else Inr (double_of (a / b)))"

section \<open>Benchmark runner\<close>

text \<open>
  What the script does to the outside world is recorded in a \<open>world\<close>: the wall clock in
  seconds (the true time, a real), the number of \<open>detect_markers\<close> calls made so far,
  and the sequence of events. \<open>time.time()\<close> returns the double nearest to the clock.
  A formatted line of output is an event that carries the values formatted, not the
  text; a literal line is \<open>Print\<close> of its text.
\<close>

record result =
  config :: string
  num_markers :: nat
  time_ms :: real
  fps :: real

datatype event =
    DetectCall
  | TimeCall
  | VideoCapture
  | CameraRead
  | CameraRelease
  | RandomFrame
  | Print string
  | PrintCameraFrame
  | PrintConfig string config
  | PrintTesting string
  | PrintResult result
  | PrintImprovement string nat int real real real
  | PrintRecommendations

record world =
  clock :: real
  ncalls :: nat
  events :: "event list"

text \<open>
  The surroundings of one run: how long each call of \<open>detect_markers\<close> takes on the wall
  clock (by the number of the call, counted from 0), whether the camera opens, what
  \<open>cap.read()\<close> returns, and the frame \<open>np.random.randint\<close> produces. Only
  \<open>detect_markers\<close> calls advance the clock.
\<close>

record 'img env =
  detect_seconds :: "nat \<Rightarrow> real"
  cap_isOpened :: bool
  cap_read :: "bool \<times> 'img"
  random_frame :: 'img

type_synonym 'a action = "world \<Rightarrow> (error + 'a) \<times> world"

definition emit :: "event \<Rightarrow> world \<Rightarrow> world" where
  "emit e w = w\<lparr>events := events w @ [e]\<rparr>"

text \<open>Sequencing: an exception ends the run and keeps the world reached so far.\<close>

definition bind_w :: "'a action \<Rightarrow> ('a \<Rightarrow> 'b action) \<Rightarrow> 'b action" where
  "bind_w m f w = (case m w of (Inl e, w') \<Rightarrow> (Inl e, w') | (Inr x, w') \<Rightarrow> f x w')"

definition lift_w :: "error + 'a \<Rightarrow> 'a action" where
  "lift_w r w = (r, w)"

definition time_time :: "real action" where
  "time_time w = (Inr (double_of (clock w)), emit TimeCall w)"

text \<open>One call of \<open>detect_markers\<close> in the world.\<close>

definition call_detect_markers ::
  "'img env \<Rightarrow> ('img, 'c, 'd) cv2 \<Rightarrow> 'img \<Rightarrow> 'd \<Rightarrow> parameters \<Rightarrow> config \<Rightarrow>
   ('c list \<times> int list option) action" where
  "call_detect_markers en lib gray dictionary ps cfg w =
    (detect_markers lib gray dictionary ps cfg,
     w\<lparr>clock := clock w + detect_seconds en (ncalls w),
       ncalls := Suc (ncalls w),
       events := events w @ [DetectCall]\<rparr>)"

text \<open>
  \<open>for _ in range(n): x = call()\<close>. \<open>cur\<close> is the value of the loop's target so far:
  \<open>None\<close> while it is unbound.
\<close>

fun for_range :: "nat \<Rightarrow> 'a action \<Rightarrow> 'a option \<Rightarrow> 'a option action" where
  "for_range 0 call cur w = (Inr cur, w)"
| "for_range (Suc n) call cur w =
    (case call w of
       (Inl e, w') \<Rightarrow> (Inl e, w')
     | (Inr x, w') \<Rightarrow> for_range n call (Some x) w')"

text \<open>
  \<open>test_configuration\<close> (lines 105-128). Reading the target of a loop that never ran
  would raise \<open>UnboundLocalError\<close>; with ten iterations it cannot.
\<close>

definition test_configuration ::
  "'img env \<Rightarrow> ('img, 'c, 'd) cv2 \<Rightarrow> 'img \<Rightarrow> string \<Rightarrow> result action" where
  "test_configuration en lib frame config_name =
    (let gray = cvtColor lib frame COLOR_BGR2GRAY in
     bind_w (lift_w (setup_detector lib config_name)) (\<lambda>(dictionary, ps, cfg).
     bind_w (for_range 3 (call_detect_markers en lib gray dictionary ps cfg) None) (\<lambda>_.
     let num_iterations = 10 in
     bind_w time_time (\<lambda>start.
     bind_w (for_range num_iterations (call_detect_markers en lib gray dictionary ps cfg) None)
       (\<lambda>cur.
     bind_w time_time (\<lambda>now.
     bind_w (lift_w (py_truediv (py_sub now start) (of_nat num_iterations))) (\<lambda>q.
     let elapsed = py_mul q 1000 in
     bind_w (lift_w (case cur of None \<Rightarrow> Inl (UnboundLocalError ''ids'') | Some r \<Rightarrow> Inr r))
       (\<lambda>(corners, ids).
     let num_detected = (case ids of Some l \<Rightarrow> length l | None \<Rightarrow> 0) in
     bind_w (lift_w (if elapsed > 0 then py_truediv 1000 elapsed else Inr 0)) (\<lambda>f.
     lift_w (Inr \<lparr>config = config_name, num_markers = num_detected,
                  time_ms = elapsed, fps = f\<rparr>))))))))))"

text \<open>
  The mean duration, in milliseconds, of the ten timed calls of a benchmark that starts
  when \<open>n\<close> detection calls have been made: those calls are numbers \<open>n + 3\<close> to
  \<open>n + 12\<close>. This is the true mean, in exact arithmetic.
\<close>

definition mean_ms :: "'img env \<Rightarrow> nat \<Rightarrow> real" where
  "mean_ms en n = (\<Sum>k<10. detect_seconds en (n + 3 + k)) / 10 * 1000"

text \<open>
  The true times of the two clock readings of a benchmark that starts in world \<open>w\<close>:
  after the three warm-up calls, and after the ten timed calls.
\<close>

definition start_time :: "'img env \<Rightarrow> world \<Rightarrow> real" where
  "start_time en w = clock w + (\<Sum>k<3. detect_seconds en (ncalls w + k))"

definition stop_time :: "'img env \<Rightarrow> world \<Rightarrow> real" where
  "stop_time en w = start_time en w + (\<Sum>k<10. detect_seconds en (ncalls w + 3 + k))"

text \<open>
  What line 119 computes from the two clock readings, the true times of which are
  \<open>t0\<close> and \<open>t1\<close>.
\<close>

definition elapsed_ms :: "real \<Rightarrow> real \<Rightarrow> real" where
  "elapsed_ms t0 t1 =
    py_mul (double_of (py_sub (double_of t1) (double_of t0) / 10)) 1000"

section \<open>The script's \<open>main\<close>\<close>

definition emit_all :: "event list \<Rightarrow> world \<Rightarrow> world" where
  "emit_all es w = w\<lparr>events := events w @ es\<rparr>"

definition dashes :: string where
  "dashes = replicate 60 (CHR ''-'')"

text \<open>Lines 151-162: the dump of \<open>configs\<close>, in the dictionary's order.\<close>

definition print_config_details :: "world \<Rightarrow> world" where
  "print_config_details w =
    (let w = emit_all [Print [], Print ''Configuration Details:'', Print dashes] w;
         w = emit_all (map (\<lambda>(name, cfg). PrintConfig name cfg) configs_items) w
     in emit_all [Print [], Print dashes, Print ''Testing configurations...'', Print dashes] w)"

text \<open>Lines 164-169: the loop over the three preset names; \<open>results\<close> is the list so far.\<close>

fun run_tests ::
  "'img env \<Rightarrow> ('img, 'c, 'd) cv2 \<Rightarrow> 'img \<Rightarrow> string list \<Rightarrow> result list \<Rightarrow>
   result list action" where
  "run_tests en lib frame [] results w = (Inr results, w)"
| "run_tests en lib frame (config_name # rest) results w =
    (case test_configuration en lib frame config_name (emit (PrintTesting config_name) w) of
       (Inl e, w') \<Rightarrow> (Inl e, w')
     | (Inr r, w') \<Rightarrow> run_tests en lib frame rest (results @ [r]) (emit (Print ''Done!'') w'))"

text \<open>Lines 171-180: the results table.\<close>

definition print_results :: "result list \<Rightarrow> world \<Rightarrow> world" where
  "print_results results w =
    (let w = emit_all [Print [], Print dashes, Print ''Results:'', Print dashes,
                       Print ''Configuration   Markers    Time (ms)    FPS       '',
                       Print dashes] w
     in emit_all (map PrintResult results) w)"

text \<open>
  Lines 189-198: the loop over \<open>results[1:]\<close>; \<open>r0\<close> is \<open>results[0]\<close>. The division of
  line 191 has no guard.
\<close>

fun improvements_loop :: "result \<Rightarrow> real \<Rightarrow> result list \<Rightarrow> unit action" where
  "improvements_loop r0 original_time [] w = (Inr (), w)"
| "improvements_loop r0 original_time (r # rest) w =
    (let time_overhead = py_sub (time_ms r) original_time in
     case py_truediv time_overhead original_time of
       Inl e \<Rightarrow> (Inl e, w)
     | Inr q \<Rightarrow>
         let time_percent = py_mul q 100 in
         improvements_loop r0 original_time rest
           (emit (PrintImprovement (config r) (num_markers r)
                    (int (num_markers r) - int (num_markers r0))
                    time_overhead time_percent (fps r)) w))"

text \<open>Lines 182-198.\<close>

definition print_improvements :: "result list \<Rightarrow> unit action" where
  "print_improvements results w =
    (let w = emit_all [Print [], Print dashes, Print ''Improvements vs Original:'',
                       Print dashes] w
     in case results of
          [] \<Rightarrow> (Inl IndexError, w)
        | r0 # rest \<Rightarrow> improvements_loop r0 (time_ms r0) rest w)"

text \<open>Lines 151-209: \<open>main\<close> from the point where it has a frame.\<close>

definition main_with_frame ::
  "'img env \<Rightarrow> ('img, 'c, 'd) cv2 \<Rightarrow> 'img \<Rightarrow> unit action" where
  "main_with_frame en lib frame w =
    (case run_tests en lib frame [''original'', ''optimized'', ''maximum''] []
            (print_config_details w) of
       (Inl e, w') \<Rightarrow> (Inl e, w')
     | (Inr results, w') \<Rightarrow>
         (case print_improvements results (print_results results w') of
            (Inl e, w'') \<Rightarrow> (Inl e, w'')
          | (Inr u, w'') \<Rightarrow> (Inr (), emit PrintRecommendations w'')))"

text \<open>\<open>main\<close> (lines 130-209).\<close>

definition main :: "'img env \<Rightarrow> ('img, 'c, 'd) cv2 \<Rightarrow> unit action" where
  "main en lib w =
    (let w = emit_all [Print ''ArUco Detection Optimization Comparison'',
                       Print (replicate 60 (CHR ''='')), Print []] w;
         w = emit VideoCapture w
     in if \<not> cap_isOpened en then
          let w = emit_all [Print ''Error: Could not open camera'',
                            Print ''Using test image instead...''] w;
              w = emit RandomFrame w;
              frame = random_frame en
          in main_with_frame en lib frame w
        else
          let w = emit CameraRead w;
              (ret, frame) = cap_read en
          in if \<not> ret then (Inr (), emit (Print ''Error: Could not read frame'') w)
             else main_with_frame en lib frame
                    (emit PrintCameraFrame (emit CameraRelease w)))"

section \<open>Launch description \<open>aruco_optimized.launch.py\<close>\<close>

text \<open>
  The launch description is data: a list of entities handed to the launch framework.
  A string in a substitution list is \<open>Text\<close>.
\<close>

datatype substitution =
    Text string
  | LaunchConfiguration string
  | FindPackageShare string
  | PathJoinSubstitution "substitution list"

record node =
  package :: string
  executable :: string
  name :: string
  parameters :: "substitution list"
  "output" :: string

datatype entity =
    DeclareLaunchArgument string string string
  | Node node

definition camera_config_arg :: entity where
  "camera_config_arg =
    DeclareLaunchArgument ''camera_config'' ''camera_c920.yaml''
      ''Camera config file (camera_c920.yaml, camera_c505.yaml, or camera_720p.yaml)''"

definition device_arg :: entity where
  "device_arg = DeclareLaunchArgument ''device'' ''/dev/video0'' ''Camera device path''"

definition config_file :: substitution where
  "config_file =
    PathJoinSubstitution
      [FindPackageShare ''aruco_py'', Text ''config'', LaunchConfiguration ''camera_config'']"

definition camera_node :: entity where
  "camera_node =
    Node \<lparr>package = ''v4l2_camera'', executable = ''v4l2_camera_node'', name = ''camera'',
          parameters = [config_file], output = ''screen''\<rparr>"

definition aruco_node :: entity where
  "aruco_node =
    Node \<lparr>package = ''aruco_py'', executable = ''aruco_node'', name = ''aruco_node'',
          parameters = [], output = ''screen''\<rparr>"

definition generate_launch_description :: "entity list" where
  "generate_launch_description = [camera_config_arg, device_arg, camera_node, aruco_node]"

text \<open>The launch configurations a substitution reads.\<close>

fun configurations_read :: "substitution \<Rightarrow> string list" where
  "configurations_read (Text s) = []"
| "configurations_read (LaunchConfiguration n) = [n]"
| "configurations_read (FindPackageShare p) = []"
| "configurations_read (PathJoinSubstitution subs) = concat (map configurations_read subs)"

fun entity_reads :: "entity \<Rightarrow> string list" where
  "entity_reads (DeclareLaunchArgument n default_value description) = []"
| "entity_reads (Node nd) = concat (map configurations_read (parameters nd))"

text \<open>
  The launch framework is external; what follows is its contract as far as this
  description uses it. The launch configurations are a map from names to values and
  start as the arguments of the invocation. A declared argument that was not given takes
  its default. \<open>LaunchConfiguration\<close> reads the map, \<open>FindPackageShare\<close> asks the
  installation for a package's share directory (\<open>share\<close>), \<open>PathJoinSubstitution\<close> joins
  the performed parts as \<open>os.path.join\<close> does. A node entity starts a process with its
  performed parameters. \<open>None\<close> is a launch that fails.
\<close>

definition os_path_join2 :: "string \<Rightarrow> string \<Rightarrow> string" where
  "os_path_join2 a b =
    (if b \<noteq> [] \<and> hd b = CHR ''/'' then b
     else if a = [] \<or> last a = CHR ''/'' then a @ b
     else a @ ''/'' @ b)"

fun perform :: "(string \<rightharpoonup> string) \<Rightarrow> (string \<rightharpoonup> string) \<Rightarrow> substitution \<Rightarrow> string option" where
  "perform share cfgs (Text s) = Some s"
| "perform share cfgs (LaunchConfiguration n) = cfgs n"
| "perform share cfgs (FindPackageShare p) = share p"
| "perform share cfgs (PathJoinSubstitution subs) =
    (case those (map (perform share cfgs) subs) of
       None \<Rightarrow> None
     | Some [] \<Rightarrow> None
     | Some (a # rest) \<Rightarrow> Some (foldl os_path_join2 a rest))"

datatype process = Process string string string "string list" string

fun execute ::
  "(string \<rightharpoonup> string) \<Rightarrow> (string \<rightharpoonup> string) \<Rightarrow> entity list \<Rightarrow> process list option" where
  "execute share cfgs [] = Some []"
| "execute share cfgs (DeclareLaunchArgument n default_value description # rest) =
    execute share (if cfgs n = None then cfgs(n \<mapsto> default_value) else cfgs) rest"
| "execute share cfgs (Node nd # rest) =
    (case those (map (perform share cfgs) (parameters nd)) of
       None \<Rightarrow> None
     | Some ps \<Rightarrow>
         (case execute share cfgs rest of
            None \<Rightarrow> None
          | Some started \<Rightarrow>
              Some (Process (package nd) (executable nd) (name nd) ps (output nd) # started)))"

section \<open>Concrete surroundings for the examples\<close>

text \<open>
  A small library: images are numbers, corner-sets are names. CLAHE doubles the image,
  the bilateral filter adds 1, Otsu thresholding adds 100. On an image below 100 the
  detector finds markers 7 and 3; on any other it finds markers 7 and 9.
\<close>

definition default_parameters :: parameters where
  "default_parameters =
    \<lparr>adaptiveThreshConstant = 0, cornerRefinementMaxIterations = 0,
     cornerRefinementMethod = CORNER_REFINE_NONE, minMarkerPerimeterRate = 0,
     maxMarkerPerimeterRate = 0, polygonalApproxAccuracyRate = 0,
     minCornerDistanceRate = 0, cornerRefinementWinSize = 0,
     cornerRefinementMinAccuracy = 0, errorCorrectionRate = 0,
     detectInvertedMarker = False\<rparr>"

definition example_cv2 :: "(nat, string, dictionary_name) cv2" where
  "example_cv2 =
    \<lparr>getPredefinedDictionary = (\<lambda>n. n),
     DetectorParameters_create = default_parameters,
     cvtColor = (\<lambda>img code. img),
     clahe_apply = (\<lambda>clip tiles img. 2 * img),
     bilateralFilter = (\<lambda>img d sigma_color sigma_space. img + 1),
     threshold = (\<lambda>img thresh maxval flags. img + 100),
     detectMarkers = (\<lambda>img d ps.
        if img < 100 then ([''a7'', ''a3''], Some [7, 3], [])
        else ([''o7'', ''o9''], Some [7, 9], []))\<rparr>"

text \<open>The parameter object of the preset \<open>optimized\<close> over these defaults.\<close>

definition optimized_parameters :: parameters where
  "optimized_parameters =
    \<lparr>adaptiveThreshConstant = 5, cornerRefinementMaxIterations = 60,
     cornerRefinementMethod = CORNER_REFINE_SUBPIX, minMarkerPerimeterRate = 0.01,
     maxMarkerPerimeterRate = 4.0, polygonalApproxAccuracyRate = 0.03,
     minCornerDistanceRate = 0.03, cornerRefinementWinSize = 5,
     cornerRefinementMinAccuracy = 0.01, errorCorrectionRate = 0.6,
     detectInvertedMarker = True\<rparr>"

text \<open>The same library with a detector that finds nothing.\<close>

definition blank_cv2 :: "(nat, string, dictionary_name) cv2" where
  "blank_cv2 = example_cv2\<lparr>detectMarkers := (\<lambda>img d ps. ([], None, []))\<rparr>"

text \<open>
  The camera does not open and every detection call takes 20 ms; and the same with a
  clock too coarse to see the calls.
\<close>

definition example_env :: "nat env" where
  "example_env =
    \<lparr>detect_seconds = (\<lambda>k. 20 / 1000), cap_isOpened = False, cap_read = (False, 0),
     random_frame = 5\<rparr>"

definition coarse_clock_env :: "nat env" where
  "coarse_clock_env = example_env\<lparr>detect_seconds := (\<lambda>k. 0)\<rparr>"

definition world0 :: world where
  "world0 = \<lparr>clock = 0, ncalls = 0, events = []\<rparr>"


section \<open>Properties of the detector setup\<close>

lemma configs_simps:
  "configs ''original'' = Some \<lparr>use_clahe = False, use_bilateral = False, use_multi_threshold = False,
         adaptive_thresh_constant = 7, corner_refinement_max_iterations = 30\<rparr>"
  "configs ''optimized'' = Some \<lparr>use_clahe = True, use_bilateral = False, use_multi_threshold = True,
         adaptive_thresh_constant = 5, corner_refinement_max_iterations = 60\<rparr>"
  "configs ''maximum'' = Some \<lparr>use_clahe = True, use_bilateral = True, use_multi_threshold = True,
         adaptive_thresh_constant = 5, corner_refinement_max_iterations = 80\<rparr>"
  by (simp_all add: configs_def configs_items_def)

text \<open>
  C6. For each of the three preset names, \<open>setup_detector\<close> returns the 7x7/50 dictionary
  and a parameter object whose fixed fields are the constants of lines 45-53, whatever
  the preset and whatever the library's defaults; the adaptive-threshold constant and
  the maximum number of refinement iterations are those of the preset.
\<close>

theorem setup_detector_fields:
  assumes "config_name \<in> set [''original'', ''optimized'', ''maximum'']"
  shows "\<exists>ps cfg.
      setup_detector lib config_name = Inr (getPredefinedDictionary lib DICT_7X7_50, ps, cfg) \<and>
      configs config_name = Some cfg \<and>
      adaptiveThreshConstant ps = of_int (adaptive_thresh_constant cfg) \<and>
      cornerRefinementMaxIterations ps = corner_refinement_max_iterations cfg \<and>
      cornerRefinementMethod ps = CORNER_REFINE_SUBPIX \<and>
      minMarkerPerimeterRate ps = 0.01 \<and>
      maxMarkerPerimeterRate ps = 4.0 \<and>
      polygonalApproxAccuracyRate ps = 0.03 \<and>
      minCornerDistanceRate ps = 0.03 \<and>
      cornerRefinementWinSize ps = 5 \<and>
      cornerRefinementMinAccuracy ps = 0.01 \<and>
      errorCorrectionRate ps = 0.6 \<and>
      detectInvertedMarker ps = True"
proof -
  from assms obtain cfg where c: "configs config_name = Some cfg"
    by (auto simp: configs_simps)
  show ?thesis
    by (simp add: setup_detector_def c Let_def)
qed

theorem setup_detector_fields_witness:
  "''optimized'' \<in> set [''original'', ''optimized'', ''maximum''] \<and>
   (\<exists>ps cfg.
      setup_detector example_cv2 ''optimized'' = Inr (DICT_7X7_50, ps, cfg) \<and>
      adaptiveThreshConstant ps = 5 \<and> cornerRefinementMaxIterations ps = 60 \<and>
      cornerRefinementMethod ps = CORNER_REFINE_SUBPIX \<and>
      minMarkerPerimeterRate ps = 0.01 \<and> maxMarkerPerimeterRate ps = 4.0 \<and>
      polygonalApproxAccuracyRate ps = 0.03 \<and> minCornerDistanceRate ps = 0.03 \<and>
      cornerRefinementWinSize ps = 5 \<and> cornerRefinementMinAccuracy ps = 0.01 \<and>
      errorCorrectionRate ps = 0.6 \<and> detectInvertedMarker ps = True)"
  using setup_detector_fields [of "''optimized''" example_cv2]
  by (auto simp: configs_simps example_cv2_def)

section \<open>Properties of preprocessing and detection\<close>

lemma preprocess_image_st_sound:
  assumes "gray < length h" and "preprocess_image_st lib h gray cfg = (p, h')"
  shows "length h \<le> p \<and> p < length h' \<and> take (length h) h' = h \<and>
         h' ! p = preprocess_image lib (h ! gray) cfg"
  using assms
  by (auto simp: preprocess_image_st_def preprocess_image_def new_array_def Let_def nth_append
           split: if_splits)

lemma merge_pass_inv:
  "merge_pass corners i ids (ac, ai, set ai) = Inr (ac', ai', seen') \<Longrightarrow>
   length ac = length ai \<Longrightarrow> distinct ai \<Longrightarrow>
   length ac' = length ai' \<and> seen' = set ai' \<and> distinct ai'"
proof (induction ids arbitrary: i ac ai)
  case Nil
  then show ?case by auto
next
  case (Cons x rest)
  show ?case
  proof (cases "x \<in> set ai")
    case True
    with Cons.prems have "merge_pass corners (Suc i) rest (ac, ai, set ai) = Inr (ac', ai', seen')"
      by simp
    from Cons.IH[OF this Cons.prems(2,3)] show ?thesis .
  next
    case False
    with Cons.prems have "merge_pass corners (Suc i) rest
        (ac @ [corners ! i], ai @ [x], set (ai @ [x])) = Inr (ac', ai', seen')"
      by (simp split: if_splits)
    from Cons.IH[OF this] False Cons.prems(2,3) show ?thesis by simp
  qed
qed

lemma merge_pass_map:
  "merge_pass corners i ids (ac, ai, seen) = Inr (ac', ai', seen') \<Longrightarrow>
   length ac = length ai \<Longrightarrow> seen = set ai \<Longrightarrow>
   map_of (zip ai' ac') = map_of (zip ids (drop i corners)) ++ map_of (zip ai ac)"
proof (induction ids arbitrary: i ac ai seen)
  case Nil
  then show ?case by simp
next
  case (Cons x rest)
  show ?case
  proof (cases "x \<in> seen")
    case True
    with Cons.prems have r: "merge_pass corners (Suc i) rest (ac, ai, seen) = Inr (ac', ai', seen')"
      by simp
    from Cons.IH[OF r Cons.prems(2,3)]
    have ih: "map_of (zip ai' ac') = map_of (zip rest (drop (Suc i) corners)) ++ map_of (zip ai ac)" .
    from True Cons.prems have "x \<in> dom (map_of (zip ai ac))"
      by (simp add: dom_map_of_zip)
    then obtain c where c: "map_of (zip ai ac) x = Some c" by blast
    show ?thesis
    proof (cases "i < length corners")
      case True
      then have "drop i corners = corners ! i # drop (Suc i) corners"
        by (simp add: Cons_nth_drop_Suc)
      then show ?thesis using ih c
        by (auto simp: map_add_def fun_eq_iff split: option.splits)
    next
      case False
      then show ?thesis using ih by simp
    qed
  next
    case False
    with Cons.prems have lt: "i < length corners" by (simp split: if_splits)
    with False Cons.prems have r: "merge_pass corners (Suc i) rest
        (ac @ [corners ! i], ai @ [x], insert x seen) = Inr (ac', ai', seen')"
      by simp
    have "map_of (zip ai' ac') = map_of (zip rest (drop (Suc i) corners)) ++
            map_of (zip (ai @ [x]) (ac @ [corners ! i]))"
      by (rule Cons.IH[OF r]) (use Cons.prems in auto)
    moreover have "drop i corners = corners ! i # drop (Suc i) corners"
      using lt by (simp add: Cons_nth_drop_Suc)
    ultimately show ?thesis using Cons.prems(2)
      by (auto simp: map_add_def fun_eq_iff split: option.splits)
  qed
qed

lemma merge_pass_total:
  "length ids + i \<le> length corners \<Longrightarrow> \<exists>st'. merge_pass corners i ids st = Inr st'"
  by (induction ids arbitrary: i st) (auto split: if_splits)


lemma merge_result_inv:
  "merge_result res (ac, ai, set ai) = Inr (ac', ai', seen') \<Longrightarrow>
   length ac = length ai \<Longrightarrow> distinct ai \<Longrightarrow>
   length ac' = length ai' \<and> seen' = set ai' \<and> distinct ai'"
  by (auto simp: merge_result_def split: prod.splits option.splits dest: merge_pass_inv)

lemma merge_result_map:
  "merge_result (corners, ids, rej) (ac, ai, set ai) = Inr (ac', ai', seen') \<Longrightarrow>
   length ac = length ai \<Longrightarrow>
   map_of (zip ai' ac') = marker_corners corners ids ++ map_of (zip ai ac)"
  using merge_pass_map [of corners 0 _ ac ai "set ai" ac' ai' seen']
  by (auto simp: merge_result_def marker_corners_def split: option.splits)

lemma merge_result_total:
  assumes "well_formed res"
  shows "\<exists>st'. merge_result res st = Inr st'"
proof -
  obtain corners ids rej where res: "res = (corners, ids, rej)" by (rule prod_cases3)
  show ?thesis
  proof (cases ids)
    case None
    with res show ?thesis by (cases st) (simp add: merge_result_def)
  next
    case (Some l)
    with res assms have "length l + 0 \<le> length corners" by (simp add: well_formed_def)
    from merge_pass_total [OF this] Some res show ?thesis by (simp add: merge_result_def)
  qed
qed

text \<open>What the merged result holds, whenever \<open>detect_markers\<close> returns one.\<close>

lemma detect_markers_multi:
  assumes multi: "use_multi_threshold cfg"
    and p1: "detectMarkers lib (preprocess_image lib gray cfg) d ps = (corners1, ids1, rej1)"
    and p2: "detectMarkers lib
               (threshold lib (preprocess_image lib gray cfg) 0 255 [THRESH_BINARY, THRESH_OTSU])
               d ps = (corners2, ids2, rej2)"
    and ret: "detect_markers lib gray d ps cfg = Inr (cs, ido)"
  shows "marker_corners cs ido = marker_corners corners2 ids2 ++ marker_corners corners1 ids1"
    and "\<And>ids. ido = Some ids \<Longrightarrow> distinct ids \<and> length cs = length ids \<and> ids \<noteq> []"
proof -
  from ret multi p1 obtain ac1 ai1 seen1 where
    m1: "merge_result (corners1, ids1, rej1) ([], [], set []) = Inr (ac1, ai1, seen1)"
    by (auto simp: detect_markers_def Let_def split: sum.splits)
  from merge_result_inv [OF m1] have inv1: "length ac1 = length ai1" "seen1 = set ai1" "distinct ai1"
    by simp_all
  from ret multi p1 p2 m1 obtain ac2 ai2 seen2 where
    m2: "merge_result (corners2, ids2, rej2) (ac1, ai1, set ai1) = Inr (ac2, ai2, seen2)"
    and out: "(cs, ido) = (if length ai2 > 0 then (ac2, Some ai2) else ([], None))"
    unfolding inv1(2) [symmetric]
    by (auto simp: detect_markers_def Let_def split: sum.splits if_splits)
  from merge_result_inv [OF m2 inv1(1,3)]
  have inv2: "length ac2 = length ai2" "distinct ai2" by simp_all
  have map1: "map_of (zip ai1 ac1) = marker_corners corners1 ids1"
    using merge_result_map [OF m1] by simp
  have map2: "map_of (zip ai2 ac2) = marker_corners corners2 ids2 ++ marker_corners corners1 ids1"
    using merge_result_map [OF m2 inv1(1)] map1 by simp
  show "marker_corners cs ido = marker_corners corners2 ids2 ++ marker_corners corners1 ids1"
  proof (cases "length ai2 > 0")
    case True
    with out map2 show ?thesis by (simp add: marker_corners_def)
  next
    case False
    with out map2 show ?thesis by (simp add: marker_corners_def)
  qed
  show "\<And>ids. ido = Some ids \<Longrightarrow> distinct ids \<and> length cs = length ids \<and> ids \<noteq> []"
    using out inv2 by (auto split: if_splits)
qed

lemma detect_markers_returns:
  assumes "well_formed (detectMarkers lib (preprocess_image lib gray cfg) d ps)"
    and "well_formed (detectMarkers lib
           (threshold lib (preprocess_image lib gray cfg) 0 255 [THRESH_BINARY, THRESH_OTSU]) d ps)"
  shows "\<exists>cs ido. detect_markers lib gray d ps cfg = Inr (cs, ido)"
proof (cases "use_multi_threshold cfg")
  case False
  then show ?thesis by (auto simp: detect_markers_def Let_def split: prod.splits)
next
  case True
  from merge_result_total [OF assms(1)] obtain st1 where
    m1: "merge_result (detectMarkers lib (preprocess_image lib gray cfg) d ps) ([], [], {}) = Inr st1"
    by blast
  from merge_result_total [OF assms(2)] obtain st2 where
    m2: "merge_result (detectMarkers lib
           (threshold lib (preprocess_image lib gray cfg) 0 255 [THRESH_BINARY, THRESH_OTSU]) d ps) st1
         = Inr st2"
    by blast
  obtain a b c where "st2 = (a, b, c)" by (cases st2)
  with True m1 m2 show ?thesis by (simp add: detect_markers_def Let_def)
qed

lemma filter_key_unique:
  "distinct (map fst xs) \<Longrightarrow> map_of xs m = Some c \<Longrightarrow> filter (\<lambda>p. fst p = m) xs = [(m, c)]"
proof (induction xs)
  case Nil
  then show ?case by simp
next
  case (Cons p xs)
  obtain k v where p: "p = (k, v)" by (cases p)
  show ?case
  proof (cases "k = m")
    case True
    with Cons.prems p have "m \<notin> fst ` set xs" and "v = c" by auto
    then have "filter (\<lambda>p. fst p = m) xs = []"
      by (auto simp: filter_empty_conv)
    with True p \<open>v = c\<close> show ?thesis by simp
  next
    case False
    with Cons p show ?thesis by simp
  qed
qed

text \<open>
  C1. With multi-threshold merging enabled and well-formed results of both passes, an
  identifier that the adaptive pass pairs with corner-set \<open>c\<close> is returned with \<open>c\<close>,
  and the output has this one entry for the identifier: an Otsu detection of an
  identifier already seen is dropped.
\<close>

theorem detect_markers_adaptive_wins:
  assumes "use_multi_threshold cfg"
    and "detectMarkers lib (preprocess_image lib gray cfg) d ps = (corners1, ids1, rej1)"
    and "detectMarkers lib
           (threshold lib (preprocess_image lib gray cfg) 0 255 [THRESH_BINARY, THRESH_OTSU])
           d ps = (corners2, ids2, rej2)"
    and "well_formed (corners1, ids1, rej1)"
    and "well_formed (corners2, ids2, rej2)"
    and "marker_corners corners1 ids1 m = Some c"
  shows "\<exists>cs ids. detect_markers lib gray d ps cfg = Inr (cs, Some ids) \<and>
           marker_corners cs (Some ids) m = Some c \<and>
           filter (\<lambda>p. fst p = m) (zip ids cs) = [(m, c)]"
proof -
  from detect_markers_returns [of lib gray cfg d ps] assms(2-5)
  obtain cs ido where ret: "detect_markers lib gray d ps cfg = Inr (cs, ido)"
    by auto
  note facts = detect_markers_multi [OF assms(1-3) ret]
  from facts(1) assms(6) have look: "marker_corners cs ido m = Some c"
    by simp
  then obtain ids where ido: "ido = Some ids"
    by (cases ido) (simp_all add: marker_corners_def)
  from facts(2) [OF ido] have "distinct ids" "length cs = length ids" by simp_all
  then have "distinct (map fst (zip ids cs))" by simp
  moreover from look ido have "map_of (zip ids cs) m = Some c"
    by (simp add: marker_corners_def)
  ultimately have "filter (\<lambda>p. fst p = m) (zip ids cs) = [(m, c)]"
    by (rule filter_key_unique)
  with ret ido look show ?thesis by simp
qed

lemma example_optimized:
  "configs ''optimized'' = Some cfg \<Longrightarrow>
   detect_markers example_cv2 5 d ps cfg = Inr ([''a7'', ''a3'', ''o9''], Some [7, 3, 9])"
  by (auto simp: configs_simps detect_markers_def preprocess_image_def example_cv2_def
        merge_result_def Let_def)

theorem detect_markers_adaptive_wins_witness:
  "marker_corners [''o7'', ''o9''] (Some [7, 9]) 7 = Some ''o7'' \<and>
   detect_markers example_cv2 5 DICT_7X7_50 default_parameters (the (configs ''optimized''))
     = Inr ([''a7'', ''a3'', ''o9''], Some [7, 3, 9]) \<and>
   filter (\<lambda>p. fst p = 7) (zip [7, 3, 9 :: int] [''a7'', ''a3'', ''o9'']) = [(7, ''a7'')]"
  using detect_markers_adaptive_wins [of "the (configs ''optimized'')" example_cv2 5 DICT_7X7_50
      default_parameters "[''a7'', ''a3'']" "Some [7, 3]" "[]" "[''o7'', ''o9'']" "Some [7, 9]" "[]"
      7 "''a7''"]
  by (simp add: configs_simps example_optimized marker_corners_def)

text \<open>
  C2. With multi-threshold merging enabled, the identifiers that \<open>detect_markers\<close>
  returns are pairwise distinct, for every image and every behaviour of the library.
\<close>

theorem detect_markers_ids_distinct:
  assumes "use_multi_threshold cfg"
    and "detect_markers lib gray d ps cfg = Inr (corners, Some ids)"
  shows "distinct ids"
proof -
  obtain c1 i1 r1 where p1: "detectMarkers lib (preprocess_image lib gray cfg) d ps = (c1, i1, r1)"
    by (rule prod_cases3)
  obtain c2 i2 r2 where p2: "detectMarkers lib
      (threshold lib (preprocess_image lib gray cfg) 0 255 [THRESH_BINARY, THRESH_OTSU]) d ps
      = (c2, i2, r2)"
    by (rule prod_cases3)
  from detect_markers_multi(2) [OF assms(1) p1 p2 assms(2)] show ?thesis by simp
qed

theorem detect_markers_ids_distinct_witness:
  "use_multi_threshold (the (configs ''optimized'')) \<and>
   detect_markers example_cv2 5 DICT_7X7_50 default_parameters (the (configs ''optimized''))
     = Inr ([''a7'', ''a3'', ''o9''], Some [7, 3, 9]) \<and>
   distinct [7, 3, 9 :: int]"
  using detect_markers_ids_distinct [of "the (configs ''optimized'')" example_cv2 5 DICT_7X7_50
      default_parameters "[''a7'', ''a3'', ''o9'']" "[7, 3, 9]"]
  by (simp add: configs_simps example_optimized)

text \<open>
  C3. With multi-threshold merging disabled, \<open>detect_markers\<close> returns the corners and
  identifiers of the one library call on the preprocessed image, as they are.
\<close>

theorem detect_markers_single_pass:
  assumes "\<not> use_multi_threshold cfg"
    and "detectMarkers lib (preprocess_image lib gray cfg) d ps = (corners, ids, rejected)"
  shows "detect_markers lib gray d ps cfg = Inr (corners, ids)"
  using assms by (simp add: detect_markers_def Let_def)

theorem detect_markers_single_pass_witness:
  "\<not> use_multi_threshold (the (configs ''original'')) \<and>
   detectMarkers example_cv2 (preprocess_image example_cv2 5 (the (configs ''original'')))
     DICT_7X7_50 default_parameters = ([''a7'', ''a3''], Some [7, 3], []) \<and>
   detect_markers example_cv2 5 DICT_7X7_50 default_parameters (the (configs ''original''))
     = Inr ([''a7'', ''a3''], Some [7, 3])"
  using detect_markers_single_pass [of "the (configs ''original'')" example_cv2 5 DICT_7X7_50
      default_parameters "[''a7'', ''a3'']" "Some [7, 3]" "[]"]
  by (simp add: configs_simps preprocess_image_def example_cv2_def)

text \<open>
  C8. \<open>preprocess_image\<close> returns an array object that did not exist before the call,
  so never its argument; every object that existed keeps its contents, the input
  among them; and the contents returned are the input's with CLAHE (clip limit 2.0,
  tiles 8 by 8) applied first and the bilateral filter (5, 50, 50) second, each if
  enabled.
\<close>

theorem preprocess_image_fresh:
  assumes "gray < length h"
    and "preprocess_image_st lib h gray cfg = (p, h')"
  shows "p \<noteq> gray \<and> length h \<le> p \<and> p < length h' \<and>
         take (length h) h' = h \<and> h' ! gray = h ! gray \<and>
         h' ! p =
           (let enhanced = (if use_clahe cfg then clahe_apply lib 2.0 (8, 8) (h ! gray)
                            else h ! gray)
            in if use_bilateral cfg then bilateralFilter lib enhanced 5 50 50 else enhanced)"
proof -
  from preprocess_image_st_sound [OF assms]
  have s: "length h \<le> p" "p < length h'" "take (length h) h' = h"
      "h' ! p = preprocess_image lib (h ! gray) cfg"
    by simp_all
  from s(3) assms(1) have "h' ! gray = h ! gray"
    by (metis nth_take)
  with s assms(1) show ?thesis
    by (simp add: preprocess_image_def Let_def)
qed

theorem preprocess_image_fresh_witness:
  "(1::nat) < length [10, 20 :: nat] \<and>
   preprocess_image_st example_cv2 [10, 20] 1 (the (configs ''maximum'')) = (4, [10, 20, 20, 40, 41]) \<and>
   (4::nat) \<noteq> 1 \<and> [10, 20, 20, 40, 41 :: nat] ! 1 = 20 \<and> [10, 20, 20, 40, 41 :: nat] ! 4 = 2 * 20 + 1"
  using preprocess_image_fresh [of 1 "[10, 20]" example_cv2 "the (configs ''maximum'')" 4
      "[10, 20, 20, 40, 41]"]
  by (simp add: configs_simps preprocess_image_st_def new_array_def example_cv2_def)

section \<open>Properties of the float arithmetic\<close>



lemma double_of_zero [simp]: "double_of 0 = 0"
  by (simp add: double_of_def)







section \<open>Properties of the benchmark runner\<close>

lemma cvtColor_example: "cvtColor example_cv2 img code = img" "cvtColor blank_cv2 img code = img"
  by (simp_all add: example_cv2_def blank_cv2_def)


lemma for_range_calls:
  assumes "detect_markers lib gray d ps cfg = Inr r"
  shows "for_range n (call_detect_markers en lib gray d ps cfg) cur w =
          (Inr (if n = 0 then cur else Some r),
           w\<lparr>clock := clock w + (\<Sum>k<n. detect_seconds en (ncalls w + k)),
             ncalls := ncalls w + n,
             events := events w @ replicate n DetectCall\<rparr>)"
proof (induction n arbitrary: cur w)
  case 0
  show ?case by simp
next
  case (Suc n)
  let ?call = "call_detect_markers en lib gray d ps cfg"
  let ?w1 = "w\<lparr>clock := clock w + detect_seconds en (ncalls w), ncalls := Suc (ncalls w),
               events := events w @ [DetectCall]\<rparr>"
  have step: "?call w = (Inr r, ?w1)"
    by (simp add: call_detect_markers_def assms)
  have "for_range (Suc n) ?call cur w = for_range n ?call (Some r) ?w1"
    by (simp add: step)
  also have "\<dots> = (Inr (if n = 0 then Some r else Some r),
       ?w1\<lparr>clock := clock ?w1 + (\<Sum>k<n. detect_seconds en (ncalls ?w1 + k)),
           ncalls := ncalls ?w1 + n,
           events := events ?w1 @ replicate n DetectCall\<rparr>)"
    by (rule Suc)
  finally show ?case
    by (simp add: sum.lessThan_Suc_shift replicate_append_same add.assoc
          del: sum.lessThan_Suc)
qed

lemma test_configuration_returns:
  assumes st: "setup_detector lib config_name = Inr (d, ps, cfg)"
    and det: "detect_markers lib (cvtColor lib frame COLOR_BGR2GRAY) d ps cfg = Inr (corners, ids)"
  shows "test_configuration en lib frame config_name w =
          (Inr \<lparr>config = config_name,
                num_markers = (case ids of Some l \<Rightarrow> length l | None \<Rightarrow> 0),
                time_ms = elapsed_ms (start_time en w) (stop_time en w),
                fps = (if elapsed_ms (start_time en w) (stop_time en w) > 0
                       then double_of (1000 / elapsed_ms (start_time en w) (stop_time en w))
                       else 0)\<rparr>,
           w\<lparr>clock := stop_time en w,
             ncalls := ncalls w + 13,
             events := events w @ replicate 3 DetectCall @ [TimeCall]
                         @ replicate 10 DetectCall @ [TimeCall]\<rparr>)"
  by (simp add: test_configuration_def bind_w_def lift_w_def st for_range_calls [OF det]
        time_time_def emit_def py_truediv_def elapsed_ms_def start_time_def stop_time_def
        Let_def
        del: sum.lessThan_Suc)

lemma stop_minus_start: "(stop_time en w - start_time en w) / 10 * 1000 = mean_ms en (ncalls w)"
  by (simp add: stop_time_def mean_ms_def del: sum.lessThan_Suc)


lemma elapsed_ms_same [simp]: "elapsed_ms t t = 0"
  by (simp add: elapsed_ms_def py_mul_def py_sub_def)


lemma example_setup:
  "setup_detector example_cv2 ''optimized'' =
     Inr (DICT_7X7_50, optimized_parameters, the (configs ''optimized''))"
  "setup_detector blank_cv2 ''optimized'' =
     Inr (DICT_7X7_50, optimized_parameters, the (configs ''optimized''))"
  by (simp_all add: setup_detector_def configs_simps example_cv2_def blank_cv2_def
        default_parameters_def optimized_parameters_def)

lemma blank_optimized:
  "detect_markers blank_cv2 img d ps (the (configs ''optimized'')) = Inr ([], None)"
  by (simp add: configs_simps detect_markers_def blank_cv2_def example_cv2_def
        merge_result_def Let_def)






lemma merge_pass_error: "merge_pass corners i ids st = Inl e \<Longrightarrow> e = IndexError"
proof (induction ids arbitrary: i st)
  case Nil
  then show ?case by simp
next
  case (Cons x rest)
  obtain ac ai seen where "st = (ac, ai, seen)" by (rule prod_cases3)
  with Cons show ?case by (auto split: if_splits)
qed

lemma merge_result_error: "merge_result res st = Inl e \<Longrightarrow> e = IndexError"
  by (auto simp: merge_result_def split: prod.splits option.splits dest: merge_pass_error)

lemma detect_markers_error: "detect_markers lib gray d ps cfg = Inl e \<Longrightarrow> e = IndexError"
  by (auto simp: detect_markers_def Let_def split: if_splits sum.splits prod.splits
        dest: merge_result_error)

lemma for_range_error:
  "for_range n (call_detect_markers en lib gray d ps cfg) cur w = (Inl e, w') \<Longrightarrow> e = IndexError"
proof (induction n arbitrary: cur w)
  case 0
  then show ?case by simp
next
  case (Suc n)
  then show ?case
    by (auto simp: call_detect_markers_def split: sum.splits dest: detect_markers_error)
qed

lemma setup_detector_error: "setup_detector lib n = Inl e \<Longrightarrow> e = KeyError n"
  by (auto simp: setup_detector_def Let_def split: option.splits)

lemma test_configuration_no_zero_division:
  "fst (test_configuration en lib frame config_name w) \<noteq> Inl ZeroDivisionError"
proof (cases "setup_detector lib config_name")
  case (Inl e)
  then show ?thesis
    by (auto simp: test_configuration_def bind_w_def lift_w_def Let_def
          dest: setup_detector_error)
next
  case (Inr t)
  obtain d ps cfg where t: "t = (d, ps, cfg)" by (rule prod_cases3)
  let ?gray = "cvtColor lib frame COLOR_BGR2GRAY"
  show ?thesis
  proof (cases "detect_markers lib ?gray d ps cfg")
    case det: (Inl e)
    have "for_range 3 (call_detect_markers en lib ?gray d ps cfg) None w
            = (Inl e, snd (call_detect_markers en lib ?gray d ps cfg w))"
      by (simp add: numeral_3_eq_3 call_detect_markers_def det)
    moreover have "e = IndexError" using det by (rule detect_markers_error)
    ultimately show ?thesis
      using Inr t by (simp add: test_configuration_def bind_w_def lift_w_def Let_def)
  next
    case det: (Inr r)
    obtain cs ids where "r = (cs, ids)" by (cases r)
    with det Inr t show ?thesis
      by (simp add: test_configuration_returns)
  qed
qed

text \<open>
  C5. \<open>test_configuration\<close> never raises \<open>ZeroDivisionError\<close>. When it runs through, the
  marker count is the length of the identifier array of the last detection call, 0 when
  that is \<open>None\<close>, and a mean time of 0 gives 0 frames per second.
\<close>

theorem test_configuration_guards:
  "fst (test_configuration en lib frame config_name w) \<noteq> Inl ZeroDivisionError \<and>
   (setup_detector lib config_name = Inr (d, ps, cfg) \<and>
    detect_markers lib (cvtColor lib frame COLOR_BGR2GRAY) d ps cfg = Inr (corners, ids) \<longrightarrow>
    (\<exists>r w'. test_configuration en lib frame config_name w = (Inr r, w') \<and>
       num_markers r = (case ids of None \<Rightarrow> 0 | Some l \<Rightarrow> length l) \<and>
       (ids = None \<longrightarrow> num_markers r = 0) \<and>
       (time_ms r = 0 \<longrightarrow> fps r = 0)))"
proof (intro conjI impI)
  show "fst (test_configuration en lib frame config_name w) \<noteq> Inl ZeroDivisionError"
    by (rule test_configuration_no_zero_division)
next
  assume "setup_detector lib config_name = Inr (d, ps, cfg) \<and>
    detect_markers lib (cvtColor lib frame COLOR_BGR2GRAY) d ps cfg = Inr (corners, ids)"
  then have a: "setup_detector lib config_name = Inr (d, ps, cfg)"
    and b: "detect_markers lib (cvtColor lib frame COLOR_BGR2GRAY) d ps cfg = Inr (corners, ids)"
    by simp_all
  show "\<exists>r w'. test_configuration en lib frame config_name w = (Inr r, w') \<and>
       num_markers r = (case ids of None \<Rightarrow> 0 | Some l \<Rightarrow> length l) \<and>
       (ids = None \<longrightarrow> num_markers r = 0) \<and>
       (time_ms r = 0 \<longrightarrow> fps r = 0)"
    unfolding test_configuration_returns [OF a b] by (auto split: option.splits)
qed


theorem test_configuration_guards_witness:
  "\<exists>r w'. test_configuration coarse_clock_env blank_cv2 5 ''optimized'' world0 = (Inr r, w') \<and>
     num_markers r = 0 \<and> time_ms r = 0 \<and> fps r = 0"
proof -
  from test_configuration_guards [of coarse_clock_env blank_cv2 5 "''optimized''" world0
      DICT_7X7_50 optimized_parameters "the (configs ''optimized'')" "[]" None]
  obtain r w' where
    r: "test_configuration coarse_clock_env blank_cv2 5 ''optimized'' world0 = (Inr r, w')"
    and n: "num_markers r = 0" and f: "time_ms r = 0 \<longrightarrow> fps r = 0"
    by (auto simp: example_setup blank_optimized)
  have "time_ms r = 0"
    using r test_configuration_returns [of blank_cv2 "''optimized''" DICT_7X7_50
      optimized_parameters "the (configs ''optimized'')" 5 "[]" None coarse_clock_env world0]
    by (simp add: example_setup blank_optimized cvtColor_example start_time_def stop_time_def
          coarse_clock_env_def)
  with r n f show ?thesis by simp
qed

section \<open>Properties of \<open>main\<close>\<close>

lemma ncalls_emit [simp]: "ncalls (emit e w) = ncalls w" "ncalls (emit_all es w) = ncalls w"
  by (simp_all add: emit_def emit_all_def)

lemma ncalls_print [simp]:
  "ncalls (print_config_details w) = ncalls w" "ncalls (print_results rs w) = ncalls w"
  by (simp_all add: print_config_details_def print_results_def Let_def)

lemma times_emit [simp]:
  "start_time en (emit e w) = start_time en w" "stop_time en (emit e w) = stop_time en w"
  "start_time en (emit_all es w) = start_time en w"
  "stop_time en (emit_all es w) = stop_time en w"
  by (simp_all add: start_time_def stop_time_def emit_def emit_all_def)

lemma times_print [simp]:
  "start_time en (print_config_details w) = start_time en w"
  "stop_time en (print_config_details w) = stop_time en w"
  by (simp_all add: print_config_details_def Let_def)

lemma mean_zero_elapsed:
  assumes "mean_ms en (ncalls w) = 0"
  shows "elapsed_ms (start_time en w) (stop_time en w) = 0"
proof -
  from assms stop_minus_start [of en w] have "stop_time en w = start_time en w" by simp
  then show ?thesis by simp
qed

lemma test_configuration_wf:
  assumes wf: "\<forall>img d ps. well_formed (detectMarkers lib img d ps)"
    and cfg: "configs config_name = Some cfg"
  shows "\<exists>r w'. test_configuration en lib frame config_name w = (Inr r, w') \<and>
           config r = config_name \<and> time_ms r = elapsed_ms (start_time en w) (stop_time en w) \<and>
           fps r = (if elapsed_ms (start_time en w) (stop_time en w) > 0 then double_of (1000 / elapsed_ms (start_time en w) (stop_time en w)) else 0) \<and>
           ncalls w' = ncalls w + 13"
proof -
  from cfg obtain d ps where st: "setup_detector lib config_name = Inr (d, ps, cfg)"
    by (simp add: setup_detector_def Let_def)
  from wf detect_markers_returns [of lib "cvtColor lib frame COLOR_BGR2GRAY" cfg d ps]
  obtain cs ids where
    "detect_markers lib (cvtColor lib frame COLOR_BGR2GRAY) d ps cfg = Inr (cs, ids)"
    by blast
  from test_configuration_returns [OF st this, of en w] show ?thesis by simp
qed

lemma run_tests_wf:
  assumes wf: "\<forall>img d ps. well_formed (detectMarkers lib img d ps)"
  shows "\<exists>r1 r2 r3 w'.
           run_tests en lib frame [''original'', ''optimized'', ''maximum''] [] w
             = (Inr [r1, r2, r3], w') \<and>
           config r1 = ''original'' \<and> time_ms r1 = elapsed_ms (start_time en w) (stop_time en w) \<and>
           fps r1 = (if elapsed_ms (start_time en w) (stop_time en w) > 0 then double_of (1000 / elapsed_ms (start_time en w) (stop_time en w)) else 0) \<and>
           ncalls w' = ncalls w + 39"
proof -
  let ?w1 = "emit (PrintTesting ''original'') w"
  from test_configuration_wf [OF wf configs_simps(1), of en frame ?w1]
  obtain r1 w1 where t1: "test_configuration en lib frame ''original'' ?w1 = (Inr r1, w1)"
    and r1: "config r1 = ''original''" "time_ms r1 = elapsed_ms (start_time en w) (stop_time en w)"
      "fps r1 = (if elapsed_ms (start_time en w) (stop_time en w) > 0 then double_of (1000 / elapsed_ms (start_time en w) (stop_time en w)) else 0)"
    and n1: "ncalls w1 = ncalls w + 13"
    by auto
  let ?w2 = "emit (PrintTesting ''optimized'') (emit (Print ''Done!'') w1)"
  from test_configuration_wf [OF wf configs_simps(2), of en frame ?w2]
  obtain r2 w2 where t2: "test_configuration en lib frame ''optimized'' ?w2 = (Inr r2, w2)"
    and n2: "ncalls w2 = ncalls w1 + 13"
    by auto
  let ?w3 = "emit (PrintTesting ''maximum'') (emit (Print ''Done!'') w2)"
  from test_configuration_wf [OF wf configs_simps(3), of en frame ?w3]
  obtain r3 w3 where t3: "test_configuration en lib frame ''maximum'' ?w3 = (Inr r3, w3)"
    and n3: "ncalls w3 = ncalls w2 + 13"
    by auto
  have "run_tests en lib frame [''original'', ''optimized'', ''maximum''] [] w
          = (Inr [r1, r2, r3], emit (Print ''Done!'') w3)"
    by (simp add: t1 t2 t3)
  with r1 n1 n2 n3 show ?thesis by simp
qed

lemma improvements_loop_ncalls:
  "ncalls (snd (improvements_loop r0 t rs w)) = ncalls w"
  by (induction rs arbitrary: w) (auto simp: Let_def py_truediv_def)

lemma improvements_loop_ok:
  "t \<noteq> 0 \<Longrightarrow> fst (improvements_loop r0 t rs w) = Inr ()"
  by (induction rs arbitrary: w) (auto simp: Let_def py_truediv_def)

lemma main_with_frame_outcome:
  assumes wf: "\<forall>img d ps. well_formed (detectMarkers lib img d ps)"
  shows "fst (main_with_frame en lib frame w) =
           (if elapsed_ms (start_time en w) (stop_time en w) = 0 then Inl ZeroDivisionError else Inr ())"
    and "ncalls (snd (main_with_frame en lib frame w)) = ncalls w + 39"
proof -
  from run_tests_wf [OF wf, of en frame "print_config_details w"]
  obtain r1 r2 r3 w' where
    run: "run_tests en lib frame [''original'', ''optimized'', ''maximum''] []
            (print_config_details w) = (Inr [r1, r2, r3], w')"
    and t: "time_ms r1 = elapsed_ms (start_time en w) (stop_time en w)" and n: "ncalls w' = ncalls w + 39"
    by auto
  let ?w = "emit_all [Print [], Print dashes, Print ''Improvements vs Original:'', Print dashes]
              (print_results [r1, r2, r3] w')"
  have imp: "print_improvements [r1, r2, r3] (print_results [r1, r2, r3] w')
               = improvements_loop r1 (time_ms r1) [r2, r3] ?w"
    by (simp add: print_improvements_def Let_def)
  have eq: "main_with_frame en lib frame w =
      (case improvements_loop r1 (time_ms r1) [r2, r3] ?w of
         (Inl e, w'') \<Rightarrow> (Inl e, w'')
       | (Inr u, w'') \<Rightarrow> (Inr (), emit PrintRecommendations w''))"
    by (simp only: main_with_frame_def run imp prod.case sum.case)
  show "fst (main_with_frame en lib frame w) =
           (if elapsed_ms (start_time en w) (stop_time en w) = 0 then Inl ZeroDivisionError else Inr ())"
  proof (cases "elapsed_ms (start_time en w) (stop_time en w) = 0")
    case True
    with t have "improvements_loop r1 (time_ms r1) [r2, r3] ?w = (Inl ZeroDivisionError, ?w)"
      by (simp add: py_truediv_def)
    with True show ?thesis by (simp add: eq del: improvements_loop.simps)
  next
    case False
    with t have "time_ms r1 \<noteq> 0" by simp
    then have "fst (improvements_loop r1 (time_ms r1) [r2, r3] ?w) = Inr ()"
      by (rule improvements_loop_ok)
    then obtain w2 where "improvements_loop r1 (time_ms r1) [r2, r3] ?w = (Inr (), w2)"
      by (metis prod.collapse)
    with False show ?thesis by (simp add: eq del: improvements_loop.simps)
  qed
  have nc: "ncalls (snd (improvements_loop r1 (time_ms r1) [r2, r3] ?w)) = ncalls w + 39"
    by (simp only: improvements_loop_ncalls ncalls_emit ncalls_print n)
  obtain res w2 where il: "improvements_loop r1 (time_ms r1) [r2, r3] ?w = (res, w2)"
    by (rule prod.exhaust)
  with nc have "ncalls w2 = ncalls w + 39" by simp
  then show "ncalls (snd (main_with_frame en lib frame w)) = ncalls w + 39"
    unfolding eq il by (cases res) simp_all
qed

lemma main_open_fail:
  "\<not> cap_isOpened en \<Longrightarrow>
   main en lib w = main_with_frame en lib (random_frame en)
     (emit_all [Print ''ArUco Detection Optimization Comparison'',
                Print (replicate 60 (CHR ''='')), Print [], VideoCapture,
                Print ''Error: Could not open camera'',
                Print ''Using test image instead...'', RandomFrame] w)"
  by (simp add: main_def emit_all_def emit_def Let_def)

lemma main_read_fail:
  "cap_isOpened en \<Longrightarrow> \<not> fst (cap_read en) \<Longrightarrow>
   main en lib w =
     (Inr (), emit_all [Print ''ArUco Detection Optimization Comparison'',
                        Print (replicate 60 (CHR ''='')), Print [], VideoCapture,
                        CameraRead, Print ''Error: Could not read frame''] w)"
  by (cases "cap_read en") (simp add: main_def emit_all_def emit_def Let_def)

lemma main_read_ok:
  "cap_isOpened en \<Longrightarrow> fst (cap_read en) \<Longrightarrow>
   main en lib w = main_with_frame en lib (snd (cap_read en))
     (emit_all [Print ''ArUco Detection Optimization Comparison'',
                Print (replicate 60 (CHR ''='')), Print [], VideoCapture,
                CameraRead, CameraRelease, PrintCameraFrame] w)"
  by (cases "cap_read en") (simp add: main_def emit_all_def emit_def Let_def)

text \<open>
  C7. \<open>main\<close> distinguishes exactly three camera outcomes. If the camera does not open,
  it prints the two lines of the fallback and goes on with the random frame. If the
  camera opens and \<open>read\<close> fails, it prints \<open>Error: Could not read frame\<close> and returns
  at once: no detection call is made. If the frame is read, it releases the camera and
  goes on with that frame. Going on means 39 detection calls when the library's results
  are well formed.
\<close>

theorem main_camera_conditions:
  "(\<not> cap_isOpened en \<longrightarrow>
      main en lib w = main_with_frame en lib (random_frame en)
        (emit_all [Print ''ArUco Detection Optimization Comparison'',
                   Print (replicate 60 (CHR ''='')), Print [], VideoCapture,
                   Print ''Error: Could not open camera'',
                   Print ''Using test image instead...'', RandomFrame] w)) \<and>
   (cap_isOpened en \<and> \<not> fst (cap_read en) \<longrightarrow>
      main en lib w =
        (Inr (), emit_all [Print ''ArUco Detection Optimization Comparison'',
                           Print (replicate 60 (CHR ''='')), Print [], VideoCapture,
                           CameraRead, Print ''Error: Could not read frame''] w)) \<and>
   (cap_isOpened en \<and> fst (cap_read en) \<longrightarrow>
      main en lib w = main_with_frame en lib (snd (cap_read en))
        (emit_all [Print ''ArUco Detection Optimization Comparison'',
                   Print (replicate 60 (CHR ''='')), Print [], VideoCapture,
                   CameraRead, CameraRelease, PrintCameraFrame] w)) \<and>
   ((\<forall>img d ps. well_formed (detectMarkers lib img d ps)) \<longrightarrow>
      ncalls (snd (main en lib w)) =
        (if cap_isOpened en \<and> \<not> fst (cap_read en) then ncalls w else ncalls w + 39))"
proof -
  have calls: "ncalls (snd (main en lib w)) =
        (if cap_isOpened en \<and> \<not> fst (cap_read en) then ncalls w else ncalls w + 39)"
    if wf: "\<forall>img d ps. well_formed (detectMarkers lib img d ps)"
  proof (cases "cap_isOpened en")
    case False
    then show ?thesis
      by (simp add: main_open_fail main_with_frame_outcome(2) [OF wf])
  next
    case True
    then show ?thesis
      by (cases "fst (cap_read en)")
         (simp_all add: main_read_fail main_read_ok main_with_frame_outcome(2) [OF wf])
  qed
  from main_open_fail [of en lib w] main_read_fail [of en lib w] main_read_ok [of en lib w] calls
  show ?thesis by blast
qed

text \<open>
  C9. The division of line 191 is unguarded: in a run that reaches the benchmarks, with
  well-formed library results, a mean time of 0 for the preset \<open>original\<close> makes \<open>main\<close>
  end in \<open>ZeroDivisionError\<close>, although \<open>test_configuration\<close> itself reported 0 frames
  per second for it without an error.
\<close>

theorem main_zero_division:
  assumes "\<forall>img d ps. well_formed (detectMarkers lib img d ps)"
    and "mean_ms en (ncalls w) = 0"
    and "\<not> cap_isOpened en \<or> fst (cap_read en)"
  shows "fst (main en lib w) = Inl ZeroDivisionError"
proof -
  from assms(2) have z: "elapsed_ms (start_time en w) (stop_time en w) = 0"
    by (rule mean_zero_elapsed)
  show ?thesis
  proof (cases "cap_isOpened en")
    case False
    with z show ?thesis
      by (simp add: main_open_fail main_with_frame_outcome(1) [OF assms(1)])
  next
    case True
    with assms(3) have "fst (cap_read en)" by simp
    with True z show ?thesis
      by (simp add: main_read_ok main_with_frame_outcome(1) [OF assms(1)])
  qed
qed

lemma example_wf: "well_formed (detectMarkers example_cv2 img d ps)"
  by (simp add: example_cv2_def well_formed_def)

theorem main_camera_conditions_witness:
  "main example_env example_cv2 world0 =
     main_with_frame example_env example_cv2 5
       (emit_all [Print ''ArUco Detection Optimization Comparison'',
                  Print (replicate 60 (CHR ''='')), Print [], VideoCapture,
                  Print ''Error: Could not open camera'',
                  Print ''Using test image instead...'', RandomFrame] world0) \<and>
   ncalls (snd (main example_env example_cv2 world0)) = 39 \<and>
   main (example_env\<lparr>cap_isOpened := True\<rparr>) example_cv2 world0 =
     (Inr (), emit_all [Print ''ArUco Detection Optimization Comparison'',
                        Print (replicate 60 (CHR ''='')), Print [], VideoCapture,
                        CameraRead, Print ''Error: Could not read frame''] world0) \<and>
   ncalls (snd (main (example_env\<lparr>cap_isOpened := True\<rparr>) example_cv2 world0)) = 0 \<and>
   main (example_env\<lparr>cap_isOpened := True, cap_read := (True, 8)\<rparr>) example_cv2 world0 =
     main_with_frame (example_env\<lparr>cap_isOpened := True, cap_read := (True, 8)\<rparr>) example_cv2 8
       (emit_all [Print ''ArUco Detection Optimization Comparison'',
                  Print (replicate 60 (CHR ''='')), Print [], VideoCapture,
                  CameraRead, CameraRelease, PrintCameraFrame] world0)"
proof -
  have wf: "\<forall>img d ps. well_formed (detectMarkers example_cv2 img d ps)"
    by (simp add: example_wf)
  have n0: "ncalls world0 = 0" by (simp add: world0_def)
  have closed: "\<not> cap_isOpened example_env"
    by (simp add: example_env_def)
  have unread: "cap_isOpened (example_env\<lparr>cap_isOpened := True\<rparr>)"
      "\<not> fst (cap_read (example_env\<lparr>cap_isOpened := True\<rparr>))"
    by (simp_all add: example_env_def)
  have good: "cap_isOpened (example_env\<lparr>cap_isOpened := True, cap_read := (True, 8)\<rparr>)"
      "fst (cap_read (example_env\<lparr>cap_isOpened := True, cap_read := (True, 8)\<rparr>))"
      "snd (cap_read (example_env\<lparr>cap_isOpened := True, cap_read := (True, 8)\<rparr>)) = 8"
    by simp_all
  have r5: "random_frame example_env = 5" by (simp add: example_env_def)
  from main_camera_conditions [of example_env example_cv2 world0] closed wf n0 r5
  have a: "main example_env example_cv2 world0 =
     main_with_frame example_env example_cv2 5
       (emit_all [Print ''ArUco Detection Optimization Comparison'',
                  Print (replicate 60 (CHR ''='')), Print [], VideoCapture,
                  Print ''Error: Could not open camera'',
                  Print ''Using test image instead...'', RandomFrame] world0)"
    and b: "ncalls (snd (main example_env example_cv2 world0)) = 39"
    by auto
  from main_camera_conditions [of "example_env\<lparr>cap_isOpened := True\<rparr>" example_cv2 world0]
    unread wf n0
  have c: "main (example_env\<lparr>cap_isOpened := True\<rparr>) example_cv2 world0 =
     (Inr (), emit_all [Print ''ArUco Detection Optimization Comparison'',
                        Print (replicate 60 (CHR ''='')), Print [], VideoCapture,
                        CameraRead, Print ''Error: Could not read frame''] world0)"
    and d: "ncalls (snd (main (example_env\<lparr>cap_isOpened := True\<rparr>) example_cv2 world0)) = 0"
    by auto
  from main_camera_conditions
    [of "example_env\<lparr>cap_isOpened := True, cap_read := (True, 8)\<rparr>" example_cv2 world0] good
  have e: "main (example_env\<lparr>cap_isOpened := True, cap_read := (True, 8)\<rparr>) example_cv2 world0 =
     main_with_frame (example_env\<lparr>cap_isOpened := True, cap_read := (True, 8)\<rparr>) example_cv2 8
       (emit_all [Print ''ArUco Detection Optimization Comparison'',
                  Print (replicate 60 (CHR ''='')), Print [], VideoCapture,
                  CameraRead, CameraRelease, PrintCameraFrame] world0)"
    by (simp only: simp_thms)
  from a b c d e show ?thesis by (intro conjI)
qed

theorem main_zero_division_witness:
  "(\<forall>img d ps. well_formed (detectMarkers example_cv2 img d ps)) \<and>
   mean_ms coarse_clock_env (ncalls world0) = 0 \<and>
   fst (main coarse_clock_env example_cv2 world0) = Inl ZeroDivisionError"
  using main_zero_division [of example_cv2 coarse_clock_env world0]
  by (simp add: example_wf mean_ms_def coarse_clock_env_def example_env_def)

section \<open>Properties of the launch description\<close>

lemma execute_launch_description:
  "execute share args generate_launch_description =
     (case share ''aruco_py'' of
        None \<Rightarrow> None
      | Some dir \<Rightarrow>
          Some [Process ''v4l2_camera'' ''v4l2_camera_node'' ''camera''
                  [os_path_join2 (os_path_join2 dir ''config'')
                     (case args ''camera_config'' of
                        None \<Rightarrow> ''camera_c920.yaml'' | Some f \<Rightarrow> f)]
                  ''screen'',
                Process ''aruco_py'' ''aruco_node'' ''aruco_node'' [] ''screen''])"
  by (simp add: generate_launch_description_def camera_config_arg_def device_arg_def
        camera_node_def aruco_node_def config_file_def split: option.splits)

text \<open>
  C10. The launch description declares \<open>device\<close> with default \<open>/dev/video0\<close> and no node
  reads it. Two invocations whose arguments differ only in \<open>device\<close> start the same
  processes: the camera node with the one parameter file
  \<open><share of aruco_py>/config/<camera_config>\<close>, the detector node with no parameters.
\<close>

theorem launch_ignores_device:
  assumes "\<forall>k. k \<noteq> ''device'' \<longrightarrow> args1 k = args2 k"
  shows "execute share args1 generate_launch_description =
           execute share args2 generate_launch_description \<and>
         execute share args1 generate_launch_description =
           (case share ''aruco_py'' of
              None \<Rightarrow> None
            | Some dir \<Rightarrow>
                Some [Process ''v4l2_camera'' ''v4l2_camera_node'' ''camera''
                        [os_path_join2 (os_path_join2 dir ''config'')
                           (case args1 ''camera_config'' of
                              None \<Rightarrow> ''camera_c920.yaml'' | Some f \<Rightarrow> f)]
                        ''screen'',
                      Process ''aruco_py'' ''aruco_node'' ''aruco_node'' [] ''screen'']) \<and>
         device_arg \<in> set generate_launch_description \<and>
         device_arg = DeclareLaunchArgument ''device'' ''/dev/video0'' ''Camera device path'' \<and>
         ''device'' \<notin> set (concat (map entity_reads generate_launch_description))"
proof -
  from assms have "args1 ''camera_config'' = args2 ''camera_config''" by simp
  then have "execute share args1 generate_launch_description =
           execute share args2 generate_launch_description"
    by (simp only: execute_launch_description)
  moreover have "device_arg \<in> set generate_launch_description"
    by (simp add: generate_launch_description_def)
  moreover have "''device'' \<notin> set (concat (map entity_reads generate_launch_description))"
    by (simp add: generate_launch_description_def camera_config_arg_def device_arg_def
        camera_node_def aruco_node_def config_file_def)
  ultimately show ?thesis
    by (simp only: execute_launch_description device_arg_def simp_thms)
qed

theorem launch_ignores_device_witness:
  "execute [''aruco_py'' \<mapsto> ''/opt/share/aruco_py''] [''device'' \<mapsto> ''/dev/video2'']
     generate_launch_description =
   execute [''aruco_py'' \<mapsto> ''/opt/share/aruco_py''] Map.empty generate_launch_description \<and>
   execute [''aruco_py'' \<mapsto> ''/opt/share/aruco_py''] [''device'' \<mapsto> ''/dev/video2'']
     generate_launch_description =
   Some [Process ''v4l2_camera'' ''v4l2_camera_node'' ''camera''
           [''/opt/share/aruco_py/config/camera_c920.yaml''] ''screen'',
         Process ''aruco_py'' ''aruco_node'' ''aruco_node'' [] ''screen'']"
proof -
  have h: "\<forall>k. k \<noteq> ''device'' \<longrightarrow> [''device'' \<mapsto> ''/dev/video2''] k = Map.empty k"
    by simp
  note t = launch_ignores_device [OF h, of "[''aruco_py'' \<mapsto> ''/opt/share/aruco_py'']"]
  from t have a: "execute [''aruco_py'' \<mapsto> ''/opt/share/aruco_py''] [''device'' \<mapsto> ''/dev/video2'']
       generate_launch_description =
     execute [''aruco_py'' \<mapsto> ''/opt/share/aruco_py''] Map.empty generate_launch_description"
    by (rule conjunct1)
  from t have "execute [''aruco_py'' \<mapsto> ''/opt/share/aruco_py''] [''device'' \<mapsto> ''/dev/video2'']
       generate_launch_description =
     (case [''aruco_py'' \<mapsto> ''/opt/share/aruco_py''] ''aruco_py'' of
        None \<Rightarrow> None
      | Some dir \<Rightarrow>
          Some [Process ''v4l2_camera'' ''v4l2_camera_node'' ''camera''
                  [os_path_join2 (os_path_join2 dir ''config'')
                     (case [''device'' \<mapsto> ''/dev/video2''] ''camera_config'' of
                        None \<Rightarrow> ''camera_c920.yaml'' | Some f \<Rightarrow> f)]
                  ''screen'',
                Process ''aruco_py'' ''aruco_node'' ''aruco_node'' [] ''screen''])"
    by (rule conjunct1 [OF conjunct2])
  then have b: "execute [''aruco_py'' \<mapsto> ''/opt/share/aruco_py''] [''device'' \<mapsto> ''/dev/video2'']
       generate_launch_description =
     Some [Process ''v4l2_camera'' ''v4l2_camera_node'' ''camera''
             [''/opt/share/aruco_py/config/camera_c920.yaml''] ''screen'',
           Process ''aruco_py'' ''aruco_node'' ''aruco_node'' [] ''screen'']"
    by (simp add: os_path_join2_def)
  from a b show ?thesis by (rule conjI)
qed

end
